theory Spec2Isabelle
  imports Complex_Main
begin

section \<open>Memory, pointers and the record of accesses\<close>

text \<open>
  The kernel \<^verbatim>\<open>_layer_norm_fwd_fused\<close> of \<^verbatim>\<open>layer_norm_forward.py\<close> receives six
  pointers (\<^verbatim>\<open>X, Y, W, B, Mean, Rstd\<close>). A pointer is modelled as an allocation
  (a buffer) together with a signed element offset inside it; pointer arithmetic moves the
  offset. Memory maps every buffer and offset to a value of the element type \<open>'a\<close>.
  Every element that a load really reads and every element that a store really writes
  is appended to a chronological trace, so that statements about what the kernel touches
  and in which order can be made about the code rather than about its result only.

  The statements of the kernel are run in the order in which they are written, and a
  call that raises ends the run: the result of the kernel is either the state in which
  it returns or the error together with the state in which it was raised. (When the
  kernel is compiled before it is launched, a call that cannot be bound is refused at
  that moment, before anything is read; the loads that the model records before such an
  error are those of the statement-by-statement run.) A load or store outside its
  allocation is not an error of the model.
\<close>

datatype buffer = BufX | BufY | BufW | BufB | BufMean | BufRstd

type_synonym ptr = "buffer \<times> int"

datatype access = Load buffer int | Store buffer int

record 'a state =
  mem :: "buffer \<Rightarrow> int \<Rightarrow> 'a"
  trace :: "access list"

datatype error = ValueError | TypeError

fun ptr_add :: "ptr \<Rightarrow> int \<Rightarrow> ptr" where
  "ptr_add (b, i) k = (b, i + k)"

text \<open>The integers of the kernel (\<^verbatim>\<open>row\<close>, \<^verbatim>\<open>stride\<close>, \<^verbatim>\<open>N\<close>, the column offsets) are signed
  32-bit values: a product or a sum is reduced to the range from \<open>-2\<^sup>3\<^sup>1\<close> to
  \<open>2\<^sup>3\<^sup>1 - 1\<close>. The arguments themselves are non-negative and are given as natural
  numbers.\<close>

definition i32 :: "int \<Rightarrow> int" where
  "i32 x = (x + 2 ^ 31) mod 2 ^ 32 - 2 ^ 31"

section \<open>The primitives of the kernel language\<close>

text \<open>
  The arithmetic of the element type is the one of its type: \<open>+\<close>, \<open>-\<close>, \<open>*\<close>, \<open>/\<close>,
  \<open>0\<close> and \<open>1\<close> are only required to exist, no law is assumed of them, so that every
  statement proved for an arbitrary \<open>'a\<close> holds of rounded machine arithmetic too.
  The primitives that the source calls and does not define are parameters:
  \<^verbatim>\<open>tl.sum(v, axis = 0)\<close>, \<^verbatim>\<open>tl.sqrt\<close>, the conversion of the integer \<^verbatim>\<open>N\<close> in
  \<^verbatim>\<open>... / N\<close>, and the value that a load without \<^verbatim>\<open>other\<close> leaves in a masked lane.
  The conversion \<^verbatim>\<open>.to(tl.float32)\<close> is the identity of \<open>'a\<close>: one element type serves
  for storage and for computation.
\<close>

record 'a prims =
  tl_sum :: "'a list \<Rightarrow> 'a"
  tl_sqrt :: "'a \<Rightarrow> 'a"
  to_float :: "nat \<Rightarrow> 'a"
  undef :: "'a"

text \<open>\<^verbatim>\<open>range(start, stop, step)\<close> for a non-negative start and a positive step.\<close>

function range_py :: "nat \<Rightarrow> nat \<Rightarrow> nat \<Rightarrow> nat list" where
  "range_py start stop step =
     (if step = 0 \<or> stop \<le> start then [] else start # range_py (start + step) stop step)"
  by pat_completeness auto
termination
  by (relation "measure (\<lambda>(start, stop, step). stop - start)") auto

declare range_py.simps [simp del]

text \<open>The shape of a block must be a power of two: \<^verbatim>\<open>tl.zeros([BLOCK_SIZE], ...)\<close> and
  \<^verbatim>\<open>tl.arange(0, BLOCK_SIZE)\<close> raise otherwise.\<close>

function is_pow2 :: "nat \<Rightarrow> bool" where
  "is_pow2 n = (if n \<le> 1 then n = 1 else even n \<and> is_pow2 (n div 2))"
  by pat_completeness auto
termination
  by (relation "measure id") auto

declare is_pow2.simps [simp del]

definition arange :: "nat \<Rightarrow> nat \<Rightarrow> nat list" where
  "arange lo hi = [lo..<hi]"

definition tl_zeros :: "nat \<Rightarrow> 'a::zero list" where
  "tl_zeros n = replicate n 0"

text \<open>The lanes of a masked access that are switched on, in lane order.\<close>

definition active :: "'b list \<Rightarrow> bool list \<Rightarrow> 'b list" where
  "active ps msk = map fst (filter snd (zip ps msk))"

fun load_lane :: "(buffer \<Rightarrow> int \<Rightarrow> 'a) \<Rightarrow> 'a \<Rightarrow> ptr \<times> bool \<Rightarrow> 'a" where
  "load_lane m other ((b, i), on) = (if on then m b i else other)"

fun loaded :: "ptr \<Rightarrow> access" where
  "loaded (b, i) = Load b i"

fun stored :: "ptr \<Rightarrow> access" where
  "stored (b, i) = Store b i"

text \<open>\<^verbatim>\<open>tl.load(ptrs, mask = mask, other = other)\<close>: a lane whose mask is off reads
  nothing and yields \<open>other\<close>.\<close>

definition tl_load :: "ptr list \<Rightarrow> bool list \<Rightarrow> 'a \<Rightarrow> 'a state \<Rightarrow> 'a list \<times> 'a state" where
  "tl_load ps msk other s =
     (map (load_lane (mem s) other) (zip ps msk),
      s\<lparr>trace := trace s @ map loaded (active ps msk)\<rparr>)"

fun poke :: "(buffer \<Rightarrow> int \<Rightarrow> 'a) \<Rightarrow> ptr \<times> 'a \<Rightarrow> (buffer \<Rightarrow> int \<Rightarrow> 'a)" where
  "poke m ((b, i), v) = m(b := (m b)(i := v))"

text \<open>\<^verbatim>\<open>tl.store(ptrs, vals, mask = mask)\<close>: a lane whose mask is off writes nothing.\<close>

definition tl_store :: "ptr list \<Rightarrow> 'a list \<Rightarrow> bool list \<Rightarrow> 'a state \<Rightarrow> 'a state" where
  "tl_store ps vals msk s =
     s\<lparr>mem := foldl poke (mem s) (active (zip ps vals) msk),
       trace := trace s @ map stored (active ps msk)\<rparr>"

text \<open>\<^verbatim>\<open>tl.store(ptr, val)\<close> of a scalar.\<close>

definition tl_store1 :: "ptr \<Rightarrow> 'a \<Rightarrow> 'a state \<Rightarrow> 'a state" where
  "tl_store1 p v s = s\<lparr>mem := poke (mem s) (p, v), trace := trace s @ [stored p]\<rparr>"

text \<open>The call \<^verbatim>\<open>tl.where(col < N, x - mean, others = 0.)\<close> of line 38. The function is
  \<^verbatim>\<open>where(condition, x, y)\<close>: it has no parameter named \<^verbatim>\<open>others\<close>, so the call passes an
  unexpected keyword and leaves \<^verbatim>\<open>y\<close> unbound. It raises \<^verbatim>\<open>TypeError\<close> when its arguments
  are bound, whatever their values, and selects nothing.\<close>

definition tl_where_others :: "bool \<Rightarrow> 'a list \<Rightarrow> 'a \<Rightarrow> error + 'a list" where
  "tl_where_others c v others = Inl TypeError"

section \<open>The kernel\<close>

text \<open>The three loops over \<^verbatim>\<open>range(0, N, BLOCK_SIZE)\<close>, each as a recursion over the list
  of chunk starts, threading the block-wide accumulator and the state. The offsets
  \<^verbatim>\<open>off = col + tl.arange(0, BLOCK_SIZE)\<close> are 32-bit sums.\<close>

fun mean_loop ::
  "ptr \<Rightarrow> nat \<Rightarrow> nat \<Rightarrow> nat list \<Rightarrow> 'a::{zero,plus} list \<Rightarrow> 'a state \<Rightarrow> 'a list \<times> 'a state" where
  "mean_loop X N BLOCK_SIZE [] mean_vec s = (mean_vec, s)"
| "mean_loop X N BLOCK_SIZE (col # cols) mean_vec s =
     (let off = map (\<lambda>i. i32 (int col + int i)) (arange 0 BLOCK_SIZE);
          (a, s1) = tl_load (map (ptr_add X) off) (map (\<lambda>j. j < int N) off) 0 s
      in mean_loop X N BLOCK_SIZE cols (map2 (+) mean_vec a) s1)"

text \<open>The loop of lines 35 to 39. Each iteration loads its chunk and then calls
  \<^verbatim>\<open>tl.where\<close>; the error of the call ends the loop, in the state after the load.\<close>

fun var_loop ::
  "ptr \<Rightarrow> nat \<Rightarrow> nat \<Rightarrow> 'a \<Rightarrow> nat list \<Rightarrow> 'a::{zero,plus,minus,times} list \<Rightarrow> 'a state
     \<Rightarrow> (error \<times> 'a state) + ('a list \<times> 'a state)" where
  "var_loop X N BLOCK_SIZE mean [] var_vec s = Inr (var_vec, s)"
| "var_loop X N BLOCK_SIZE mean (col # cols) var_vec s =
     (let off = map (\<lambda>i. i32 (int col + int i)) (arange 0 BLOCK_SIZE);
          (x, s1) = tl_load (map (ptr_add X) off) (map (\<lambda>j. j < int N) off) 0 s
      in case tl_where_others (col < N) (map (\<lambda>v. v - mean) x) 0 of
           Inl e \<Rightarrow> Inl (e, s1)
         | Inr x \<Rightarrow> var_loop X N BLOCK_SIZE mean cols (map2 (+) var_vec (map2 (*) x x)) s1)"

fun norm_loop ::
  "'a prims \<Rightarrow> ptr \<Rightarrow> ptr \<Rightarrow> ptr \<Rightarrow> ptr \<Rightarrow> nat \<Rightarrow> nat \<Rightarrow> 'a \<Rightarrow> 'a \<Rightarrow> nat list
     \<Rightarrow> 'a::{zero,plus,minus,times} state \<Rightarrow> 'a state" where
  "norm_loop P X Y W B N BLOCK_SIZE mean rstd [] s = s"
| "norm_loop P X Y W B N BLOCK_SIZE mean rstd (col # cols) s =
     (let off = map (\<lambda>i. i32 (int col + int i)) (arange 0 BLOCK_SIZE);
          msk = map (\<lambda>j. j < int N) off;
          (w, s1) = tl_load (map (ptr_add W) off) msk (undef P) s;
          (b, s2) = tl_load (map (ptr_add B) off) msk (undef P) s1;
          (x, s3) = tl_load (map (ptr_add X) off) msk 0 s2;
          y = map (\<lambda>(x, w, b). (x - mean) * rstd * w + b) (zip x (zip w b))
      in norm_loop P X Y W B N BLOCK_SIZE mean rstd cols
           (tl_store (map (ptr_add Y) off) y msk s3))"

text \<open>The whole kernel for the program instance \<open>row\<close> (\<^verbatim>\<open>tl.program_id(axis = 0)\<close>).
  The product \<^verbatim>\<open>row * stride\<close> is a 32-bit product. The initialiser \<^verbatim>\<open>mean = 0\<close> of line 26
  is overwritten on line 32 before any use and is left out. A block size that is not a
  power of two is refused on line 27, before anything is read (and a block size of 0 is
  the step of \<^verbatim>\<open>range\<close> on line 28, which raises \<^verbatim>\<open>ValueError\<close> as well). An error of the
  variance loop ends the kernel before lines 40 to 53.\<close>

definition layer_norm_fwd_fused ::
  "'a prims \<Rightarrow> nat \<Rightarrow> ptr \<Rightarrow> ptr \<Rightarrow> ptr \<Rightarrow> ptr \<Rightarrow> nat \<Rightarrow> ptr \<Rightarrow> ptr \<Rightarrow> nat \<Rightarrow> 'a \<Rightarrow> nat
     \<Rightarrow> 'a::{zero,one,plus,minus,times,inverse} state \<Rightarrow> (error \<times> 'a state) + 'a state" where
  "layer_norm_fwd_fused P row X Y W B stride Mean Rstd N eps BLOCK_SIZE s =
     (if \<not> is_pow2 BLOCK_SIZE then Inl (ValueError, s)
      else
        let X = ptr_add X (i32 (int row * int stride));
            Y = ptr_add Y (i32 (int row * int stride));
            (mean_vec, s1) = mean_loop X N BLOCK_SIZE (range_py 0 N BLOCK_SIZE) (tl_zeros BLOCK_SIZE) s;
            mean = tl_sum P mean_vec / to_float P N
        in case var_loop X N BLOCK_SIZE mean (range_py 0 N BLOCK_SIZE) (tl_zeros BLOCK_SIZE) s1 of
             Inl (e, s2) \<Rightarrow> Inl (e, s2)
           | Inr (var_vec, s2) \<Rightarrow>
               (let var = tl_sum P var_vec / to_float P N;
                    rstd = 1 / tl_sqrt P (var + eps);
                    s3 = tl_store1 (ptr_add Mean (int row)) mean s2;
                    s4 = tl_store1 (ptr_add Rstd (int row)) rstd s3
                in Inr (norm_loop P X Y W B N BLOCK_SIZE mean rstd (range_py 0 N BLOCK_SIZE) s4)))"

text \<open>The state in which a run ends, whether it returns or raises.\<close>

fun final_state :: "(error \<times> 'a state) + 'a state \<Rightarrow> 'a state" where
  "final_state (Inl (e, s)) = s"
| "final_state (Inr s) = s"

text \<open>Exact arithmetic over the reals: the reference instance for the numerical claims.\<close>

definition real_prims :: "real prims" where
  "real_prims = \<lparr>tl_sum = sum_list, tl_sqrt = sqrt, to_float = real, undef = 0\<rparr>"

section \<open>What the loops read and compute\<close>

text \<open>
  The definitions of this section are not part of the source. They name what one
  iteration of a loop reads and computes, as functions of the memory, and what a whole
  run accesses, so that the lemmas below can say what the kernel does.
\<close>

text \<open>The columns of the chunk starting at \<open>col\<close> whose mask \<^verbatim>\<open>off < N\<close> is on.\<close>

definition chunk :: "nat \<Rightarrow> nat \<Rightarrow> nat \<Rightarrow> nat list" where
  "chunk N BLOCK_SIZE col = filter (\<lambda>j. j < N) (map (\<lambda>i. col + i) [0..<BLOCK_SIZE])"

text \<open>The value behind a pointer.\<close>

definition deref :: "(buffer \<Rightarrow> int \<Rightarrow> 'a) \<Rightarrow> ptr \<Rightarrow> 'a" where
  "deref m p = m (fst p) (snd p)"

text \<open>The pointer to column \<open>j\<close> behind a pointer.\<close>

definition col_ptr :: "ptr \<Rightarrow> nat \<Rightarrow> ptr" where
  "col_ptr p j = ptr_add p (int j)"

text \<open>The values of one masked load of a chunk, as a function of the memory.\<close>

definition load_chunk :: "(buffer \<Rightarrow> int \<Rightarrow> 'a) \<Rightarrow> ptr \<Rightarrow> nat \<Rightarrow> nat \<Rightarrow> 'a \<Rightarrow> nat \<Rightarrow> 'a list" where
  "load_chunk m p N BLOCK_SIZE other col =
     map (\<lambda>j. if j < N then deref m (col_ptr p j) else other) (map (\<lambda>i. col + i) [0..<BLOCK_SIZE])"

text \<open>The accesses of one masked load of a chunk.\<close>

definition chunk_loads :: "ptr \<Rightarrow> nat \<Rightarrow> nat \<Rightarrow> nat \<Rightarrow> access list" where
  "chunk_loads p N BLOCK_SIZE col = map loaded (map (col_ptr p) (chunk N BLOCK_SIZE col))"

text \<open>The accesses of one pass of loads over the row.\<close>

definition row_loads :: "ptr \<Rightarrow> nat \<Rightarrow> nat \<Rightarrow> access list" where
  "row_loads X N BLOCK_SIZE = concat (map (chunk_loads X N BLOCK_SIZE) (range_py 0 N BLOCK_SIZE))"

text \<open>The cells of the first \<open>N\<close> columns behind a pointer.\<close>

definition row_ptrs :: "ptr \<Rightarrow> nat \<Rightarrow> ptr set" where
  "row_ptrs p N = col_ptr p ` {j. j < N}"

text \<open>The start of the row: \<^verbatim>\<open>X += row * stride\<close>, with the 32-bit product.\<close>

definition row_base :: "ptr \<Rightarrow> nat \<Rightarrow> nat \<Rightarrow> ptr" where
  "row_base p row stride = ptr_add p (i32 (int row * int stride))"

text \<open>The mean that line 32 computes, as a function of the memory.\<close>

definition mean_of :: "(buffer \<Rightarrow> int \<Rightarrow> 'a::{zero,plus,inverse}) \<Rightarrow> 'a prims \<Rightarrow> ptr \<Rightarrow> nat \<Rightarrow> nat \<Rightarrow> 'a" where
  "mean_of m P X N BLOCK_SIZE =
     tl_sum P (foldl (\<lambda>acc col. map2 (+) acc (load_chunk m X N BLOCK_SIZE 0 col))
                     (tl_zeros BLOCK_SIZE) (range_py 0 N BLOCK_SIZE)) / to_float P N"

text \<open>The launch layer allocates the three outputs apart from one another and from the
  inputs; the inputs may share an allocation.\<close>

definition separate :: "ptr \<Rightarrow> ptr \<Rightarrow> ptr \<Rightarrow> ptr \<Rightarrow> ptr \<Rightarrow> ptr \<Rightarrow> bool" where
  "separate X Y W B Mean Rstd \<longleftrightarrow>
     distinct [fst Y, fst Mean, fst Rstd] \<and>
     fst X \<notin> {fst Y, fst Mean, fst Rstd} \<and>
     fst W \<notin> {fst Y, fst Mean, fst Rstd} \<and>
     fst B \<notin> {fst Y, fst Mean, fst Rstd}"

text \<open>A memory for the examples: the lists are the contents of \<^verbatim>\<open>X\<close>, \<^verbatim>\<open>W\<close> and \<^verbatim>\<open>B\<close>
  from offset 0 on, every other cell holds \<open>fill\<close>, and nothing has been accessed yet.\<close>

definition init_state :: "'a \<Rightarrow> 'a list \<Rightarrow> 'a list \<Rightarrow> 'a list \<Rightarrow> 'a state" where
  "init_state fill xs ws bs =
     \<lparr>mem = (\<lambda>b i. case b of
                BufX \<Rightarrow> (if 0 \<le> i \<and> i < int (length xs) then xs ! nat i else fill)
              | BufW \<Rightarrow> (if 0 \<le> i \<and> i < int (length ws) then ws ! nat i else fill)
              | BufB \<Rightarrow> (if 0 \<le> i \<and> i < int (length bs) then bs ! nat i else fill)
              | _ \<Rightarrow> fill),
      trace = []\<rparr>"

text \<open>The lanes of the chunk starting at \<open>col\<close> stay below \<open>2\<^sup>3\<^sup>1\<close>: their 32-bit sums do not wrap.\<close>

definition fits :: "nat \<Rightarrow> nat \<Rightarrow> bool" where
  "fits col BLOCK_SIZE \<longleftrightarrow> col + BLOCK_SIZE \<le> 2 ^ 31"

text \<open>The accesses of a run that raises on line 38: the mean pass over the row, then the
  load of the first chunk of the variance pass.\<close>

definition raise_trace :: "ptr \<Rightarrow> nat \<Rightarrow> nat \<Rightarrow> access list" where
  "raise_trace X N BLOCK_SIZE = row_loads X N BLOCK_SIZE @ chunk_loads X N BLOCK_SIZE 0"

text \<open>The accesses of a run, whichever way it ends: none when the block size is refused, the
  two stores of the statistics when the row is empty and no loop iterates, and the loads up
  to the error of line 38 otherwise.\<close>

definition kernel_trace :: "nat \<Rightarrow> ptr \<Rightarrow> nat \<Rightarrow> ptr \<Rightarrow> ptr \<Rightarrow> nat \<Rightarrow> nat \<Rightarrow> access list" where
  "kernel_trace row X stride Mean Rstd N BLOCK_SIZE =
     (if \<not> is_pow2 BLOCK_SIZE then []
      else if N = 0 then [stored (ptr_add Mean (int row)), stored (ptr_add Rstd (int row))]
      else raise_trace (row_base X row stride) N BLOCK_SIZE)"

section \<open>Lemmas about the kernel\<close>

lemma i32_id: "0 \<le> x \<Longrightarrow> x < 2 ^ 31 \<Longrightarrow> i32 x = x"
  by (simp add: i32_def)

lemma active_map: "active (map f xs) (map p xs) = map f (filter p xs)"
  by (induction xs) (simp_all add: active_def)

lemma load_lane_eq: "load_lane m other (p, on) = (if on then m (fst p) (snd p) else other)"
  by (cases p) simp

lemma load_lane_map:
  "map (load_lane m other) (zip (map f xs) (map p xs)) =
     map (\<lambda>x. if p x then m (fst (f x)) (snd (f x)) else other) xs"
  by (induction xs) (simp_all add: load_lane_eq)

lemma set_chunk: "set (chunk N BS col) = {j. col \<le> j \<and> j < col + BS \<and> j < N}"
  by (auto simp: chunk_def)

lemma lanes_no_wrap:
  assumes "fits col BS"
  shows "map (\<lambda>i. i32 (int col + int i)) (arange 0 BS) = map (\<lambda>i. int (col + i)) [0..<BS]"
  unfolding arange_def
proof (rule map_cong [OF refl])
  fix i assume "i \<in> set [0..<BS]"
  with assms have "col + i < 2 ^ 31" by (simp add: fits_def)
  then have "int col + int i < 2 ^ 31"
    by (metis of_nat_add of_nat_less_numeral_power_cancel_iff)
  then show "i32 (int col + int i) = int (col + i)"
    by (simp add: i32_id)
qed

lemma tl_load_chunk:
  assumes "fits col BS"
  shows "tl_load (map (ptr_add p) (map (\<lambda>i. i32 (int col + int i)) (arange 0 BS)))
           (map (\<lambda>j. j < int N) (map (\<lambda>i. i32 (int col + int i)) (arange 0 BS))) other s =
     (load_chunk (mem s) p N BS other col, s\<lparr>trace := trace s @ chunk_loads p N BS col\<rparr>)"
proof -
  have 1: "map (ptr_add p) (map (\<lambda>i. int (col + i)) [0..<BS]) =
           map (\<lambda>i. col_ptr p (col + i)) [0..<BS]"
    by (simp add: col_ptr_def)
  have "int col + int i < int N \<longleftrightarrow> col + i < N" for i
    by linarith
  then have 2: "map (\<lambda>j. j < int N) (map (\<lambda>i. int (col + i)) [0..<BS]) = map (\<lambda>i. col + i < N) [0..<BS]"
    by simp
  have 3: "map (\<lambda>i. col_ptr p (col + i)) (filter (\<lambda>i. col + i < N) [0..<BS]) =
           map (col_ptr p) (chunk N BS col)"
    by (simp add: chunk_def filter_map comp_def)
  show ?thesis
    unfolding lanes_no_wrap [OF assms] 1 2 tl_load_def active_map load_lane_map 3
    by (simp add: load_chunk_def deref_def chunk_loads_def comp_def)
qed

lemma range_py_lt: "col \<in> set (range_py c N BS) \<Longrightarrow> col < N"
proof (induction c N BS rule: range_py.induct)
  case (1 start stop step)
  from "1.prems" have ne: "\<not> (step = 0 \<or> stop \<le> start)"
    and mem: "col = start \<or> col \<in> set (range_py (start + step) stop step)"
    by (subst (asm) range_py.simps, simp split: if_splits)+
  from mem show ?case
  proof
    assume "col = start" with ne show ?thesis by simp
  next
    assume "col \<in> set (range_py (start + step) stop step)"
    with ne show ?thesis by (rule "1.IH")
  qed
qed

lemma range_py_dvd: "BS dvd c \<Longrightarrow> col \<in> set (range_py c N BS) \<Longrightarrow> BS dvd col"
proof (induction c N BS rule: range_py.induct)
  case (1 start stop step)
  from "1.prems"(2) have ne: "\<not> (step = 0 \<or> stop \<le> start)"
    and mem: "col = start \<or> col \<in> set (range_py (start + step) stop step)"
    by (subst (asm) range_py.simps, simp split: if_splits)+
  from mem show ?case
  proof
    assume "col = start" with "1.prems"(1) show ?thesis by simp
  next
    assume m: "col \<in> set (range_py (start + step) stop step)"
    from "1.prems"(1) have "step dvd start + step" by simp
    with ne show ?thesis using m by (rule "1.IH")
  qed
qed

lemma range_py_first: "0 < BS \<Longrightarrow> 0 < N \<Longrightarrow> range_py 0 N BS = 0 # range_py BS N BS"
  by (subst range_py.simps) simp

lemma range_py_empty: "range_py c 0 BS = []"
  by (subst range_py.simps) simp

lemma is_pow2_power: "is_pow2 n \<Longrightarrow> \<exists>k. n = 2 ^ k"
proof (induction n rule: is_pow2.induct)
  case (1 n)
  show ?case
  proof (cases "n \<le> 1")
    case True
    with "1.prems" have "n = 1" by (subst (asm) is_pow2.simps) simp
    then have "n = 2 ^ 0" by simp
    then show ?thesis by blast
  next
    case False
    with "1.prems" have e: "even n" and p: "is_pow2 (n div 2)"
      by (subst (asm) is_pow2.simps, simp)+
    from False p obtain k where "n div 2 = 2 ^ k" using "1.IH" by blast
    with e have "n = 2 ^ Suc k" by auto
    then show ?thesis by blast
  qed
qed

lemma is_pow2_pos: "is_pow2 n \<Longrightarrow> 0 < n"
  by (auto dest: is_pow2_power)

lemma is_pow2_dvd:
  assumes "is_pow2 n" and "n < 2 ^ 31"
  shows "n dvd 2 ^ 31"
proof -
  from assms(1) obtain k where k: "n = 2 ^ k" by (auto dest: is_pow2_power)
  with assms(2) have "(2::nat) ^ k < 2 ^ 31" by simp
  then have "k < 31" by (rule power_less_imp_less_exp [rotated]) simp
  then have "(2::nat) ^ k dvd 2 ^ 31" by (intro le_imp_power_dvd) simp
  with k show ?thesis by simp
qed

lemma dvd_gap:
  fixes b c m :: nat
  assumes "b dvd c" and "b dvd m" and "c < m"
  shows "c + b \<le> m"
proof -
  from assms(1) obtain r where r: "c = b * r" by (rule dvdE)
  from assms(2) obtain q where q: "m = b * q" by (rule dvdE)
  from assms(3) have "b * r < b * q" unfolding r q .
  then have "r < q" by simp
  then have "Suc r \<le> q" by simp
  then have "b * Suc r \<le> b * q" by (rule mult_le_mono2)
  then show ?thesis unfolding r q by simp
qed

lemma chunk_fits:
  assumes "is_pow2 BS" and "BS < 2 ^ 31" and "N < 2 ^ 31" and "col \<in> set (range_py 0 N BS)"
  shows "fits col BS"
proof -
  from assms(4) have "col < N" by (rule range_py_lt)
  then have lt: "col < 2 ^ 31" using assms(3) by (rule less_trans)
  have "BS dvd 0" by simp
  then have d: "BS dvd col" using assms(4) by (rule range_py_dvd)
  from d is_pow2_dvd [OF assms(1,2)] lt show ?thesis unfolding fits_def by (rule dvd_gap)
qed

lemma mean_loop_snd:
  "\<forall>col \<in> set cols. fits col BS \<Longrightarrow>
   snd (mean_loop X N BS cols acc s) =
     s\<lparr>trace := trace s @ concat (map (chunk_loads X N BS) cols)\<rparr>"
  by (induction cols arbitrary: acc s) (simp_all add: Let_def tl_load_chunk del: map_map)

lemma mean_loop_fst:
  "\<forall>col \<in> set cols. fits col BS \<Longrightarrow>
   fst (mean_loop X N BS cols acc s) =
     foldl (\<lambda>acc col. map2 (+) acc (load_chunk (mem s) X N BS 0 col)) acc cols"
  by (induction cols arbitrary: acc s) (simp_all add: Let_def tl_load_chunk del: map_map)

lemma var_loop_raises:
  "fits col BS \<Longrightarrow>
   var_loop X N BS mean (col # cols) acc s =
     Inl (TypeError, s\<lparr>trace := trace s @ chunk_loads X N BS col\<rparr>)"
  by (simp add: Let_def tl_load_chunk tl_where_others_def del: map_map)

lemma kernel_bad_block:
  "\<not> is_pow2 BS \<Longrightarrow> layer_norm_fwd_fused P row X Y W B stride Mean Rstd N eps BS s = Inl (ValueError, s)"
  by (simp add: layer_norm_fwd_fused_def)

lemma kernel_raises:
  assumes "is_pow2 BS" and "BS < 2 ^ 31" and "N < 2 ^ 31" and "1 \<le> N"
  shows "layer_norm_fwd_fused P row X Y W B stride Mean Rstd N eps BS s =
           Inl (TypeError, s\<lparr>trace := trace s @ raise_trace (row_base X row stride) N BS\<rparr>)"
proof -
  let ?X = "ptr_add X (i32 (int row * int stride))"
  let ?cols = "range_py 0 N BS"
  have fits: "\<forall>col \<in> set ?cols. fits col BS"
    using chunk_fits [OF assms(1,2,3)] by blast
  obtain mv s1 where m: "mean_loop ?X N BS ?cols (tl_zeros BS) s = (mv, s1)"
    by (cases "mean_loop ?X N BS ?cols (tl_zeros BS) s")
  have s1: "s1 = s\<lparr>trace := trace s @ row_loads ?X N BS\<rparr>"
    using mean_loop_snd [OF fits, of ?X N "tl_zeros BS" s] m by (simp add: row_loads_def)
  have c: "?cols = 0 # range_py BS N BS"
    using range_py_first [OF is_pow2_pos [OF assms(1)], of N] assms(4) by simp
  from assms(2) have z: "fits 0 BS" unfolding fits_def by (simp only: add_0 less_imp_le)
  have v: "var_loop ?X N BS mean ?cols (tl_zeros BS) s1 =
             Inl (TypeError, s1\<lparr>trace := trace s1 @ chunk_loads ?X N BS 0\<rparr>)" for mean
    unfolding c by (rule var_loop_raises [OF z])
  show ?thesis
    using assms(1)
    by (simp add: layer_norm_fwd_fused_def Let_def m v [unfolded s1] s1 raise_trace_def row_base_def)
qed

lemma kernel_empty_row:
  assumes "is_pow2 BS"
  shows "layer_norm_fwd_fused P row X Y W B stride Mean Rstd 0 eps BS s =
     Inr (tl_store1 (ptr_add Rstd (int row))
            (1 / tl_sqrt P (tl_sum P (tl_zeros BS) / to_float P 0 + eps))
            (tl_store1 (ptr_add Mean (int row)) (tl_sum P (tl_zeros BS) / to_float P 0) s))"
  using assms by (simp add: layer_norm_fwd_fused_def Let_def range_py_empty)

lemma final_trace:
  assumes "BS < 2 ^ 31" and "N < 2 ^ 31"
  shows "trace (final_state (layer_norm_fwd_fused P row X Y W B stride Mean Rstd N eps BS s)) =
           trace s @ kernel_trace row X stride Mean Rstd N BS"
proof (cases "is_pow2 BS")
  case False
  then show ?thesis by (simp add: kernel_bad_block kernel_trace_def)
next
  case True
  show ?thesis
  proof (cases "N = 0")
    case True
    with \<open>is_pow2 BS\<close> show ?thesis
      by (simp add: kernel_empty_row kernel_trace_def tl_store1_def)
  next
    case False
    then have "1 \<le> N" by simp
    with True assms False show ?thesis
      by (simp add: kernel_raises kernel_trace_def)
  qed
qed

lemma deref_poke: "deref (poke m (p, v)) q = (if q = p then v else deref m q)"
  by (cases p; cases q) (auto simp: deref_def)

lemma final_mem:
  assumes "BS < 2 ^ 31" and "N < 2 ^ 31"
    and "q \<noteq> ptr_add Mean (int row)" and "q \<noteq> ptr_add Rstd (int row)"
  shows "deref (mem (final_state (layer_norm_fwd_fused P row X Y W B stride Mean Rstd N eps BS s))) q =
           deref (mem s) q"
proof (cases "is_pow2 BS")
  case False
  then show ?thesis by (simp add: kernel_bad_block)
next
  case True
  show ?thesis
  proof (cases "N = 0")
    case True
    with \<open>is_pow2 BS\<close> assms(3,4) show ?thesis
      by (simp add: kernel_empty_row tl_store1_def deref_poke del: poke.simps)
  next
    case False
    then have "1 \<le> N" by simp
    with True assms show ?thesis
      by (simp add: kernel_raises)
  qed
qed

lemma kernel_raises_mem:
  assumes "is_pow2 BS" and "BS < 2 ^ 31" and "N < 2 ^ 31" and "1 \<le> N"
  shows "mem (final_state (layer_norm_fwd_fused P row X Y W B stride Mean Rstd N eps BS s)) = mem s"
  by (simp add: kernel_raises [OF assms])

lemma set_chunk_loads: "set (chunk_loads X N BS col) \<subseteq> loaded ` row_ptrs X N"
  by (auto simp: chunk_loads_def row_ptrs_def set_chunk)

lemma set_row_loads: "set (row_loads X N BS) \<subseteq> loaded ` row_ptrs X N"
  using set_chunk_loads [of X N BS] by (auto simp: row_loads_def)

lemma set_raise_trace: "set (raise_trace X N BS) \<subseteq> loaded ` row_ptrs X N"
  using set_row_loads [of X N BS] set_chunk_loads [of X N BS 0] by (auto simp: raise_trace_def)

lemma set_kernel_trace:
  "set (kernel_trace row X stride Mean Rstd N BS) \<subseteq>
     loaded ` row_ptrs (row_base X row stride) N \<union>
     {stored (ptr_add Mean (int row)), stored (ptr_add Rstd (int row))}"
  using set_raise_trace [of "row_base X row stride" N BS] by (auto simp: kernel_trace_def)

lemma ptr_add_inj: "ptr_add p j = ptr_add p k \<longleftrightarrow> j = k"
  by (cases p) simp

lemma col_ptr_inj: "col_ptr p j = col_ptr p k \<longleftrightarrow> j = k"
  by (simp add: col_ptr_def ptr_add_inj)

lemma fst_ptr_add [simp]: "fst (ptr_add p j) = fst p"
  by (cases p) simp

lemma fst_col_ptr [simp]: "fst (col_ptr p j) = fst p"
  by (simp add: col_ptr_def)

lemma fst_row_base [simp]: "fst (row_base p row stride) = fst p"
  by (simp add: row_base_def)

lemma loaded_eq [simp]: "loaded p = loaded q \<longleftrightarrow> p = q"
  by (cases p; cases q) simp

lemma stored_eq [simp]: "stored p = stored q \<longleftrightarrow> p = q"
  by (cases p; cases q) simp

lemma loaded_stored [simp]: "loaded p \<noteq> stored q" "stored q \<noteq> loaded p"
  by (cases p; cases q; simp)+

lemma sum_list_map2_add:
  fixes xs ys :: "'a::comm_monoid_add list"
  shows "length xs = length ys \<Longrightarrow> sum_list (map2 (+) xs ys) = sum_list xs + sum_list ys"
  by (induction xs ys rule: list_induct2) (simp_all add: ac_simps)

lemma length_load_chunk [simp]: "length (load_chunk m p N BS other col) = BS"
  by (simp add: load_chunk_def)

lemma sum_list_lanes:
  fixes f :: "nat \<Rightarrow> 'a::comm_monoid_add"
  shows "sum_list (map (\<lambda>j. if j < N then f j else 0) (map (\<lambda>i. col + i) [0..<BS])) =
           (\<Sum>j = col..<min (col + BS) N. f j)"
proof (induction BS)
  case 0
  show ?case by simp
next
  case (Suc BS)
  show ?case
  proof (cases "col + BS < N")
    case True
    then have "min (col + Suc BS) N = Suc (col + BS)" "min (col + BS) N = col + BS" by simp_all
    with Suc True show ?thesis by simp
  next
    case False
    then have "min (col + Suc BS) N = min (col + BS) N" by simp
    with Suc False show ?thesis by simp
  qed
qed

lemma sum_list_load_chunk:
  fixes m :: "buffer \<Rightarrow> int \<Rightarrow> 'a::comm_monoid_add"
  shows "sum_list (load_chunk m p N BS 0 col) = (\<Sum>j = col..<min (col + BS) N. deref m (col_ptr p j))"
  unfolding load_chunk_def by (rule sum_list_lanes)

lemma sum_chunks:
  fixes f :: "nat \<Rightarrow> 'a::comm_monoid_add"
  assumes "c < N"
  shows "(\<Sum>j = c..<min (c + BS) N. f j) + (\<Sum>j = c + BS..<N. f j) = (\<Sum>j = c..<N. f j)"
proof (cases "c + BS \<le> N")
  case True
  then have "min (c + BS) N = c + BS" by simp
  with True show ?thesis by (simp add: sum.atLeastLessThan_concat)
next
  case False
  then show ?thesis by simp
qed

lemma sum_list_mean_loop:
  fixes m :: "buffer \<Rightarrow> int \<Rightarrow> 'a::comm_monoid_add"
  assumes "0 < BS" and "length acc = BS"
  shows "sum_list (foldl (\<lambda>acc col. map2 (+) acc (load_chunk m X N BS 0 col)) acc (range_py c N BS)) =
           sum_list acc + (\<Sum>j = c..<N. deref m (col_ptr X j))"
  using assms
proof (induction c N BS arbitrary: acc rule: range_py.induct)
  case (1 start stop step)
  show ?case
  proof (cases "start < stop")
    case False
    then show ?thesis by (subst range_py.simps) simp
  next
    case True
    let ?a = "map2 (+) acc (load_chunk m X stop step 0 start)"
    have len: "length ?a = step" using "1.prems" by simp
    have "sum_list (foldl (\<lambda>acc col. map2 (+) acc (load_chunk m X stop step 0 col)) ?a
             (range_py (start + step) stop step)) =
          sum_list ?a + (\<Sum>j = start + step..<stop. deref m (col_ptr X j))"
      using True "1.prems" len by (intro "1.IH") simp_all
    also have "sum_list ?a = sum_list acc + (\<Sum>j = start..<min (start + step) stop. deref m (col_ptr X j))"
      using "1.prems" by (simp add: sum_list_map2_add sum_list_load_chunk)
    finally show ?thesis
      using True "1.prems" sum_chunks [OF True, of "\<lambda>j. deref m (col_ptr X j)" step]
      by (subst range_py.simps) (simp add: add.assoc)
  qed
qed

lemma sum_list_tl_zeros [simp]: "sum_list (tl_zeros n :: 'a::comm_monoid_add list) = 0"
  by (induction n) (simp_all add: tl_zeros_def)

lemma length_tl_zeros [simp]: "length (tl_zeros n) = n"
  by (simp add: tl_zeros_def)

lemma mean_of_real:
  "0 < BS \<Longrightarrow> mean_of m real_prims X N BS = (\<Sum>j<N. deref m (col_ptr X j)) / real N"
  by (simp add: mean_of_def real_prims_def sum_list_mean_loop atLeast0LessThan)

lemma mean_pass_computes:
  assumes "is_pow2 BS" and "BS < 2 ^ 31" and "N < 2 ^ 31"
  shows "tl_sum P (fst (mean_loop X N BS (range_py 0 N BS) (tl_zeros BS) s)) / to_float P N =
           mean_of (mem s) P X N BS"
proof -
  have "\<forall>col \<in> set (range_py 0 N BS). fits col BS"
    using chunk_fits [OF assms] by blast
  then show ?thesis by (simp add: mean_loop_fst mean_of_def)
qed

lemma trace_init_state [simp]: "trace (init_state fill xs ws bs) = []"
  by (simp add: init_state_def)

lemma mem_init_state:
  "mem (init_state fill xs ws bs) BufX = (\<lambda>i. if 0 \<le> i \<and> i < int (length xs) then xs ! nat i else fill)"
  "mem (init_state fill xs ws bs) BufW = (\<lambda>i. if 0 \<le> i \<and> i < int (length ws) then ws ! nat i else fill)"
  "mem (init_state fill xs ws bs) BufB = (\<lambda>i. if 0 \<le> i \<and> i < int (length bs) then bs ! nat i else fill)"
  "mem (init_state fill xs ws bs) BufY = (\<lambda>i. fill)"
  "mem (init_state fill xs ws bs) BufMean = (\<lambda>i. fill)"
  "mem (init_state fill xs ws bs) BufRstd = (\<lambda>i. fill)"
  by (simp_all add: init_state_def)

lemma is_pow2_examples: "is_pow2 2" "is_pow2 4"
  by (simp_all add: is_pow2.simps)

lemma int32_examples: "(2::nat) < 2 ^ 31" "(3::nat) < 2 ^ 31" "(4::nat) < 2 ^ 31" "(5::nat) < 2 ^ 31"
  by simp_all

lemma row_base_examples:
  "row_base (b, 0) 0 stride = (b, 0)" "row_base (b, 0) 1 8 = (b, 8)" "row_base (b, 0) (Suc 0) 8 = (b, 8)"
  by (simp_all add: row_base_def i32_def)

lemma range_py_examples:
  "range_py 0 4 4 = [0]" "range_py 0 5 4 = [0, 4]" "range_py 0 3 2 = [0, 2]"
  by (simp_all add: range_py.simps)

lemma upt_examples: "[0..<2] = [0, 1]" "[0..<4] = [0, 1, 2, 3]"
  by (simp_all add: upt_rec)

lemma tl_zeros_examples: "tl_zeros 2 = [0, 0]" "tl_zeros 4 = [0, 0, 0, 0]"
  by (simp_all add: tl_zeros_def numeral_eq_Suc)

lemma chunk_examples:
  "chunk 4 4 0 = [0, 1, 2, 3]" "chunk 5 4 0 = [0, 1, 2, 3]" "chunk 5 4 4 = [4]"
  "chunk 3 2 0 = [0, 1]" "chunk 3 2 2 = [2]"
  by (simp_all add: chunk_def upt_examples)

lemma raise_trace_examples:
  "raise_trace (b, 0) 4 4 =
     [Load b 0, Load b 1, Load b 2, Load b 3, Load b 0, Load b 1, Load b 2, Load b 3]"
  "raise_trace (b, 0) 5 4 =
     [Load b 0, Load b 1, Load b 2, Load b 3, Load b 4, Load b 0, Load b 1, Load b 2, Load b 3]"
  "raise_trace (b, 8) 5 4 =
     [Load b 8, Load b 9, Load b 10, Load b 11, Load b 12, Load b 8, Load b 9, Load b 10, Load b 11]"
  "raise_trace (b, 0) 3 2 = [Load b 0, Load b 1, Load b 2, Load b 0, Load b 1]"
  by (simp_all add: raise_trace_def row_loads_def chunk_loads_def range_py_examples chunk_examples
      col_ptr_def)

lemma lessThan_examples:
  "{..<3::nat} = {0, 1, 2}" "{..<4::nat} = {0, 1, 2, 3}" "{..<5::nat} = {0, 1, 2, 3, 4}"
  by auto

lemma loaded_row_ptrs: "loaded ` row_ptrs (b, k) N = {Load b j | j. k \<le> j \<and> j < k + int N}"
proof -
  have "\<exists>i<N. j = k + int i" if "k \<le> j" "j < k + int N" for j
    using that by (intro exI [of _ "nat (j - k)"]) auto
  then show ?thesis by (auto simp: row_ptrs_def col_ptr_def image_iff)
qed

lemma stored_row_ptrs: "stored ` row_ptrs (b, k) N = {Store b j | j. k \<le> j \<and> j < k + int N}"
proof -
  have "\<exists>i<N. j = k + int i" if "k \<le> j" "j < k + int N" for j
    using that by (intro exI [of _ "nat (j - k)"]) auto
  then show ?thesis by (auto simp: row_ptrs_def col_ptr_def image_iff)
qed

lemma row_ptrs_pair: "row_ptrs (b, k) N = {(b, j) | j. k \<le> j \<and> j < k + int N}"
proof -
  have "\<exists>i<N. j = k + int i" if "k \<le> j" "j < k + int N" for j
    using that by (intro exI [of _ "nat (j - k)"]) auto
  then show ?thesis by (auto simp: row_ptrs_def col_ptr_def image_iff)
qed

lemma stores_of_kernel_trace:
  assumes "stored q \<in> set (kernel_trace row X stride Mean Rstd N BS)"
  shows "q = ptr_add Mean (int row) \<or> q = ptr_add Rstd (int row)"
proof -
  from assms set_kernel_trace [of row X stride Mean Rstd N BS]
  have "stored q \<in> loaded ` row_ptrs (row_base X row stride) N \<union>
     {stored (ptr_add Mean (int row)), stored (ptr_add Rstd (int row))}"
    by (rule rev_subsetD)
  then show ?thesis by (auto simp: image_iff)
qed

lemma fits_examples: "fits 0 2" "fits 0 4" "fits 2 2" "fits 4 4"
  by (simp_all add: fits_def)

lemma kernel_raises_at:
  assumes "is_pow2 BS" and "BS < 2 ^ 31" and "N < 2 ^ 31" and "1 \<le> N"
    and "raise_trace (row_base X row stride) N BS = tr" and "trace s = []"
  shows "layer_norm_fwd_fused P row X Y W B stride Mean Rstd N eps BS s = Inl (TypeError, s\<lparr>trace := tr\<rparr>)"
  unfolding kernel_raises [OF assms(1-4)] assms(5,6) by simp

section \<open>The accesses of the kernel\<close>

text \<open>
  Claim C6. Whatever a run of the kernel does before it ends, by returning or by raising,
  every access it makes is a load of one of the first \<open>N\<close> cells of its row of \<^verbatim>\<open>X\<close>, of
  \<^verbatim>\<open>W\<close> or of \<^verbatim>\<open>B\<close>, a store into one of the first \<open>N\<close> cells of its row of \<^verbatim>\<open>Y\<close>, or the
  store of \<^verbatim>\<open>Mean[row]\<close> or \<^verbatim>\<open>Rstd[row]\<close>. When the six pointers are separate
  allocations, the cells of the rows of \<^verbatim>\<open>X\<close> and \<^verbatim>\<open>Y\<close> at the columns \<open>N\<close> and beyond (the
  padding, when the stride exceeds \<open>N\<close>) are neither read nor written. \<^verbatim>\<open>N\<close> and
  \<^verbatim>\<open>BLOCK_SIZE\<close> are 32-bit values, and the row starts at the 32-bit product
  \<^verbatim>\<open>row * stride\<close>.
\<close>

theorem accesses_masked_to_N:
  assumes "BS < 2 ^ 31" and "N < 2 ^ 31"
  shows "\<exists>t. trace (final_state (layer_norm_fwd_fused P row X Y W B stride Mean Rstd N eps BS s)) =
               trace s @ t \<and>
           set t \<subseteq> loaded ` row_ptrs (row_base X row stride) N \<union> loaded ` row_ptrs W N \<union>
                   loaded ` row_ptrs B N \<union> stored ` row_ptrs (row_base Y row stride) N \<union>
                   {stored (ptr_add Mean (int row)), stored (ptr_add Rstd (int row))} \<and>
           (distinct (map fst [X, Y, W, B, Mean, Rstd]) \<longrightarrow>
              (\<forall>j\<ge>N. loaded (col_ptr (row_base X row stride) j) \<notin> set t \<and>
                      stored (col_ptr (row_base X row stride) j) \<notin> set t \<and>
                      loaded (col_ptr (row_base Y row stride) j) \<notin> set t \<and>
                      stored (col_ptr (row_base Y row stride) j) \<notin> set t))"
proof -
  let ?t = "kernel_trace row X stride Mean Rstd N BS"
  let ?A = "loaded ` row_ptrs (row_base X row stride) N \<union>
            {stored (ptr_add Mean (int row)), stored (ptr_add Rstd (int row))}"
  have t: "trace (final_state (layer_norm_fwd_fused P row X Y W B stride Mean Rstd N eps BS s)) =
             trace s @ ?t"
    using assms by (rule final_trace)
  have sub: "set ?t \<subseteq> ?A" by (rule set_kernel_trace)
  then have sub': "set ?t \<subseteq> loaded ` row_ptrs (row_base X row stride) N \<union> loaded ` row_ptrs W N \<union>
                   loaded ` row_ptrs B N \<union> stored ` row_ptrs (row_base Y row stride) N \<union>
                   {stored (ptr_add Mean (int row)), stored (ptr_add Rstd (int row))}"
    by auto
  have pad: "loaded (col_ptr (row_base X row stride) j) \<notin> ?A \<and>
             stored (col_ptr (row_base X row stride) j) \<notin> ?A \<and>
             loaded (col_ptr (row_base Y row stride) j) \<notin> ?A \<and>
             stored (col_ptr (row_base Y row stride) j) \<notin> ?A"
    if d: "distinct (map fst [X, Y, W, B, Mean, Rstd])" and j: "N \<le> j" for j
  proof -
    have 1: "col_ptr p j \<notin> row_ptrs p N" for p
      using j by (auto simp: row_ptrs_def col_ptr_inj)
    have 2: "col_ptr p j \<notin> row_ptrs q N" if "fst p \<noteq> fst q" for p q
      using that by (auto simp: row_ptrs_def dest: arg_cong [where f = fst])
    have 3: "col_ptr p j \<noteq> ptr_add q i" if "fst p \<noteq> fst q" for p q i
      using that by (auto dest: arg_cong [where f = fst])
    from d show ?thesis
      by (auto simp: image_iff 1 2 3)
  qed
  have "set ?t \<subseteq> loaded ` row_ptrs (row_base X row stride) N \<union> loaded ` row_ptrs W N \<union>
                   loaded ` row_ptrs B N \<union> stored ` row_ptrs (row_base Y row stride) N \<union>
                   {stored (ptr_add Mean (int row)), stored (ptr_add Rstd (int row))} \<and>
        (distinct (map fst [X, Y, W, B, Mean, Rstd]) \<longrightarrow>
           (\<forall>j\<ge>N. loaded (col_ptr (row_base X row stride) j) \<notin> set ?t \<and>
                   stored (col_ptr (row_base X row stride) j) \<notin> set ?t \<and>
                   loaded (col_ptr (row_base Y row stride) j) \<notin> set ?t \<and>
                   stored (col_ptr (row_base Y row stride) j) \<notin> set ?t))"
    using sub sub' pad by (meson subsetD)
  with t show ?thesis by (intro exI [of _ ?t]) simp
qed

theorem accesses_masked_to_N_witness:
  "\<exists>t. trace (final_state (layer_norm_fwd_fused real_prims 1 (BufX, 0) (BufY, 0) (BufW, 0) (BufB, 0) 8
             (BufMean, 0) (BufRstd, 0) 5 0 4
             (init_state 7 [0, 0, 0, 0, 0, 0, 0, 0, 1, 2, 3, 4, 5] [1, 1, 1, 1, 1] [0, 0, 0, 0, 0]))) = t \<and>
        set t \<subseteq> {Load BufX j | j. 8 \<le> j \<and> j < 8 + int 5} \<union> {Load BufW j | j. 0 \<le> j \<and> j < 0 + int 5} \<union>
                {Load BufB j | j. 0 \<le> j \<and> j < 0 + int 5} \<union> {Store BufY j | j. 8 \<le> j \<and> j < 8 + int 5} \<union>
                {Store BufMean 1, Store BufRstd 1} \<and>
        (\<forall>j\<ge>5. Load BufX (8 + int j) \<notin> set t \<and> Store BufX (8 + int j) \<notin> set t \<and>
                Load BufY (8 + int j) \<notin> set t \<and> Store BufY (8 + int j) \<notin> set t)"
  using accesses_masked_to_N [OF int32_examples(3) int32_examples(4), of real_prims 1 "(BufX, 0)" "(BufY, 0)"
      "(BufW, 0)" "(BufB, 0)" 8 "(BufMean, 0)" "(BufRstd, 0)" 0
      "init_state 7 [0, 0, 0, 0, 0, 0, 0, 0, 1, 2, 3, 4, 5] [1, 1, 1, 1, 1] [0, 0, 0, 0, 0]"]
  unfolding row_base_examples loaded_row_ptrs stored_row_ptrs
  by (simp add: col_ptr_def)

section \<open>What the kernel writes\<close>

text \<open>
  Claim C10. Whatever a run of the kernel does before it ends, by returning or by raising,
  it stores only into the first \<open>N\<close> cells of its row of \<^verbatim>\<open>Y\<close>, into \<^verbatim>\<open>Mean[row]\<close> and into
  \<^verbatim>\<open>Rstd[row]\<close>: every store of the trace goes there, every other cell of the memory holds
  at the end what it held before, and when the outputs are allocated apart from the
  inputs the whole of \<^verbatim>\<open>X\<close>, \<^verbatim>\<open>W\<close> and \<^verbatim>\<open>B\<close> is unchanged.
\<close>

theorem only_outputs_written:
  assumes "BS < 2 ^ 31" and "N < 2 ^ 31"
  shows "\<exists>s' t. final_state (layer_norm_fwd_fused P row X Y W B stride Mean Rstd N eps BS s) = s' \<and>
           trace s' = trace s @ t \<and>
           (\<forall>q. stored q \<in> set t \<longrightarrow>
                q \<in> row_ptrs (row_base Y row stride) N \<union> {ptr_add Mean (int row), ptr_add Rstd (int row)}) \<and>
           (\<forall>q. q \<notin> row_ptrs (row_base Y row stride) N \<union> {ptr_add Mean (int row), ptr_add Rstd (int row)} \<longrightarrow>
                deref (mem s') q = deref (mem s) q) \<and>
           (separate X Y W B Mean Rstd \<longrightarrow>
              mem s' (fst X) = mem s (fst X) \<and> mem s' (fst W) = mem s (fst W) \<and>
              mem s' (fst B) = mem s (fst B))"
proof -
  let ?s' = "final_state (layer_norm_fwd_fused P row X Y W B stride Mean Rstd N eps BS s)"
  let ?t = "kernel_trace row X stride Mean Rstd N BS"
  let ?out = "row_ptrs (row_base Y row stride) N \<union> {ptr_add Mean (int row), ptr_add Rstd (int row)}"
  have t: "trace ?s' = trace s @ ?t" using assms by (rule final_trace)
  have st: "\<forall>q. stored q \<in> set ?t \<longrightarrow> q \<in> ?out"
    using stores_of_kernel_trace by blast
  have frame: "deref (mem ?s') q = deref (mem s) q" if "q \<notin> ?out" for q
    using assms that by (intro final_mem) auto
  then have frame': "\<forall>q. q \<notin> ?out \<longrightarrow> deref (mem ?s') q = deref (mem s) q"
    by blast
  have buf: "mem ?s' b = mem s b" if "b \<notin> {fst Mean, fst Rstd}" for b
  proof
    fix i
    have "(b, i) \<noteq> ptr_add Mean (int row)" "(b, i) \<noteq> ptr_add Rstd (int row)"
      using that by (auto dest: arg_cong [where f = fst])
    with assms have "deref (mem ?s') (b, i) = deref (mem s) (b, i)" by (intro final_mem)
    then show "mem ?s' b i = mem s b i" by (simp add: deref_def)
  qed
  have inputs: "separate X Y W B Mean Rstd \<longrightarrow>
          mem ?s' (fst X) = mem s (fst X) \<and> mem ?s' (fst W) = mem s (fst W) \<and> mem ?s' (fst B) = mem s (fst B)"
    by (simp add: separate_def buf)
  show ?thesis
    by (rule exI [of _ ?s'], rule exI [of _ ?t])
       (rule conjI [OF refl conjI [OF t conjI [OF st conjI [OF frame' inputs]]]])
qed

theorem only_outputs_written_witness:
  "\<exists>s'. final_state (layer_norm_fwd_fused real_prims 1 (BufX, 0) (BufY, 0) (BufW, 0) (BufB, 0) 8
            (BufMean, 0) (BufRstd, 0) 5 (1 / 100000) 4
            (init_state 7 [0, 0, 0, 0, 0, 0, 0, 0, 1, 2, 3, 4, 5] [2, 2, 2, 2, 2] [1, 1, 1, 1, 1])) = s' \<and>
         (\<forall>q. stored q \<in> set (trace s') \<longrightarrow>
            q \<in> {(BufY, j) | j. 8 \<le> j \<and> j < 8 + int 5} \<union> {(BufMean, 1), (BufRstd, 1)}) \<and>
         mem s' BufX = mem (init_state 7 [0, 0, 0, 0, 0, 0, 0, 0, 1, 2, 3, 4, 5] [2, 2, 2, 2, 2] [1, 1, 1, 1, 1]) BufX \<and>
         mem s' BufW = mem (init_state 7 [0, 0, 0, 0, 0, 0, 0, 0, 1, 2, 3, 4, 5] [2, 2, 2, 2, 2] [1, 1, 1, 1, 1]) BufW \<and>
         mem s' BufB = mem (init_state 7 [0, 0, 0, 0, 0, 0, 0, 0, 1, 2, 3, 4, 5] [2, 2, 2, 2, 2] [1, 1, 1, 1, 1]) BufB \<and>
         mem s' BufY 13 = 7 \<and> mem s' BufY 7 = 7 \<and> mem s' BufMean 0 = 7 \<and> mem s' BufRstd 2 = 7"
proof -
  let ?s = "init_state 7 [0, 0, 0, 0, 0, 0, 0, 0, 1, 2, 3, 4, 5] [2, 2, 2, 2, 2] [1, 1, 1, 1, 1] :: real state"
  have sep: "separate (BufX, 0) (BufY, 0) (BufW, 0) (BufB, 0) (BufMean, 0) (BufRstd, 0)"
    by (simp add: separate_def)
  from only_outputs_written [OF int32_examples(3) int32_examples(4), of real_prims 1 "(BufX, 0)" "(BufY, 0)"
        "(BufW, 0)" "(BufB, 0)" 8 "(BufMean, 0)" "(BufRstd, 0)" "1 / 100000" ?s]
  obtain s' t where r: "final_state (layer_norm_fwd_fused real_prims 1 (BufX, 0) (BufY, 0) (BufW, 0) (BufB, 0) 8
            (BufMean, 0) (BufRstd, 0) 5 (1 / 100000) 4 ?s) = s'"
    and tr: "trace s' = trace ?s @ t"
    and st: "\<forall>q. stored q \<in> set t \<longrightarrow>
               q \<in> row_ptrs (row_base (BufY, 0) 1 8) 5 \<union> {ptr_add (BufMean, 0) (int 1), ptr_add (BufRstd, 0) (int 1)}"
    and fr: "\<forall>q. q \<notin> row_ptrs (row_base (BufY, 0) 1 8) 5 \<union> {ptr_add (BufMean, 0) (int 1), ptr_add (BufRstd, 0) (int 1)} \<longrightarrow>
                deref (mem s') q = deref (mem ?s) q"
    and inp: "separate (BufX, 0) (BufY, 0) (BufW, 0) (BufB, 0) (BufMean, 0) (BufRstd, 0) \<longrightarrow>
       mem s' (fst (BufX, 0::int)) = mem ?s (fst (BufX, 0::int)) \<and>
       mem s' (fst (BufW, 0::int)) = mem ?s (fst (BufW, 0::int)) \<and>
       mem s' (fst (BufB, 0::int)) = mem ?s (fst (BufB, 0::int))"
    by (elim exE conjE)
  have 1: "\<forall>q. stored q \<in> set (trace s') \<longrightarrow>
            q \<in> {(BufY, j) | j. 8 \<le> j \<and> j < 8 + int 5} \<union> {(BufMean, 1), (BufRstd, 1)}"
    using st unfolding row_base_examples row_ptrs_pair by (simp add: tr)
  have 2: "mem s' BufX = mem ?s BufX" "mem s' BufW = mem ?s BufW" "mem s' BufB = mem ?s BufB"
    using inp sep by simp_all
  have 3: "mem s' BufY 13 = 7" "mem s' BufY 7 = 7" "mem s' BufMean 0 = 7" "mem s' BufRstd 2 = 7"
    using fr [rule_format, of "(BufY, 13)"] fr [rule_format, of "(BufY, 7)"]
      fr [rule_format, of "(BufMean, 0)"] fr [rule_format, of "(BufRstd, 2)"]
    unfolding row_base_examples row_ptrs_pair
    by (simp_all add: deref_def mem_init_state)
  show ?thesis
    by (rule exI [of _ s']) (intro conjI r 1 2 3)
qed

section \<open>The masked lanes of the variance pass\<close>

text \<open>
  Claim C1, evaluated on the code for \<^verbatim>\<open>N = 5\<close>, \<^verbatim>\<open>BLOCK_SIZE = 4\<close> and the row
  \<open>[1, 2, 3, 4, 5]\<close>. In the mean pass the second chunk (\<^verbatim>\<open>col = 4\<close>, one valid lane and
  three masked lanes) adds \<open>[5, 0, 0, 0]\<close>: the masked lanes add zero. The variance pass,
  run with the mean 3, raises \<^verbatim>\<open>TypeError\<close> in its first iteration, at the call of
  \<^verbatim>\<open>tl.where\<close> on line 38 and after the four loads of the first chunk: no squared deviation
  is accumulated and the second chunk, the one with masked lanes, is not reached. The
  kernel ends with that error after nine loads.
\<close>

theorem variance_pass_raises_at_N5:
  "fst (mean_loop (BufX, 0) 5 4 [4] (tl_zeros 4)
          (init_state 0 [1, 2, 3, 4, 5] [1, 1, 1, 1, 1] [0, 0, 0, 0, 0])) = [5, 0, 0, 0 :: real] \<and>
   var_loop (BufX, 0) 5 4 3 (range_py 0 5 4) (tl_zeros 4)
          (init_state 0 [1, 2, 3, 4, 5] [1, 1, 1, 1, 1] [0, 0, 0, 0, 0 :: real]) =
     Inl (TypeError, (init_state 0 [1, 2, 3, 4, 5] [1, 1, 1, 1, 1] [0, 0, 0, 0, 0])
            \<lparr>trace := [Load BufX 0, Load BufX 1, Load BufX 2, Load BufX 3]\<rparr>) \<and>
   layer_norm_fwd_fused real_prims 0 (BufX, 0) (BufY, 0) (BufW, 0) (BufB, 0) 5
          (BufMean, 0) (BufRstd, 0) 5 (1 / 100000) 4
          (init_state 0 [1, 2, 3, 4, 5] [1, 1, 1, 1, 1] [0, 0, 0, 0, 0]) =
     Inl (TypeError, (init_state 0 [1, 2, 3, 4, 5] [1, 1, 1, 1, 1] [0, 0, 0, 0, 0])
            \<lparr>trace := [Load BufX 0, Load BufX 1, Load BufX 2, Load BufX 3, Load BufX 4,
                        Load BufX 0, Load BufX 1, Load BufX 2, Load BufX 3]\<rparr>)"
proof -
  let ?s = "init_state 0 [1, 2, 3, 4, 5] [1, 1, 1, 1, 1] [0, 0, 0, 0, 0] :: real state"
  have 1: "fst (mean_loop (BufX, 0) 5 4 [4] (tl_zeros 4) ?s) = [5, 0, 0, 0]"
    by (subst mean_loop_fst)
       (simp_all add: fits_examples load_chunk_def tl_zeros_examples upt_examples deref_def
          col_ptr_def mem_init_state)
  have 2: "var_loop (BufX, 0) 5 4 3 (range_py 0 5 4) (tl_zeros 4) ?s =
     Inl (TypeError, ?s\<lparr>trace := [Load BufX 0, Load BufX 1, Load BufX 2, Load BufX 3]\<rparr>)"
    unfolding range_py_examples var_loop_raises [OF fits_examples(2)]
    by (simp add: chunk_loads_def chunk_examples col_ptr_def)
  have "(1::nat) \<le> 5" by simp
  then have 3: "layer_norm_fwd_fused real_prims 0 (BufX, 0) (BufY, 0) (BufW, 0) (BufB, 0) 5
          (BufMean, 0) (BufRstd, 0) 5 (1 / 100000) 4 ?s =
     Inl (TypeError, ?s\<lparr>trace := [Load BufX 0, Load BufX 1, Load BufX 2, Load BufX 3, Load BufX 4,
                        Load BufX 0, Load BufX 1, Load BufX 2, Load BufX 3]\<rparr>)"
    by (intro kernel_raises_at [OF is_pow2_examples(2) int32_examples(3) int32_examples(4)]) (simp_all add: row_base_examples raise_trace_examples)
  show ?thesis by (intro conjI 1 2 3)
qed

section \<open>The output row\<close>

text \<open>
  Claim C2, evaluated on the code for row 1 with stride 8, \<^verbatim>\<open>N = 5\<close>, \<^verbatim>\<open>BLOCK_SIZE = 4\<close>, the
  row \<open>[1, 2, 3, 4, 5]\<close>, weights 2 and biases 1, in a memory whose other cells hold 7.
  The kernel raises \<^verbatim>\<open>TypeError\<close> on line 38 after nine loads and stores nothing:
  \<^verbatim>\<open>Y[1, 4]\<close> holds 7 as before, where
  \<^verbatim>\<open>(X[1, 4] - Mean[1]) * Rstd[1] * W[4] + B[4]\<close> on the memory the run leaves is \<open>-27\<close>.
\<close>

theorem output_row_not_stored_at_N5:
  "\<exists>s'. layer_norm_fwd_fused real_prims 1 (BufX, 0) (BufY, 0) (BufW, 0) (BufB, 0) 8
          (BufMean, 0) (BufRstd, 0) 5 (1 / 100000) 4
          (init_state 7 [0, 0, 0, 0, 0, 0, 0, 0, 1, 2, 3, 4, 5] [2, 2, 2, 2, 2] [1, 1, 1, 1, 1]) =
            Inl (TypeError, s') \<and>
        trace s' = [Load BufX 8, Load BufX 9, Load BufX 10, Load BufX 11, Load BufX 12,
                    Load BufX 8, Load BufX 9, Load BufX 10, Load BufX 11] \<and>
        mem s' BufY 12 = 7 \<and>
        (mem s' BufX 12 - mem s' BufMean 1) * mem s' BufRstd 1 * mem s' BufW 4 + mem s' BufB 4 = - 27"
proof -
  let ?s = "init_state 7 [0, 0, 0, 0, 0, 0, 0, 0, 1, 2, 3, 4, 5] [2, 2, 2, 2, 2] [1, 1, 1, 1, 1] :: real state"
  let ?s' = "?s\<lparr>trace := [Load BufX 8, Load BufX 9, Load BufX 10, Load BufX 11, Load BufX 12,
                    Load BufX 8, Load BufX 9, Load BufX 10, Load BufX 11]\<rparr>"
  have "(1::nat) \<le> 5" by simp
  then have r: "layer_norm_fwd_fused real_prims 1 (BufX, 0) (BufY, 0) (BufW, 0) (BufB, 0) 8
          (BufMean, 0) (BufRstd, 0) 5 (1 / 100000) 4 ?s = Inl (TypeError, ?s')"
    by (intro kernel_raises_at [OF is_pow2_examples(2) int32_examples(3) int32_examples(4)]) (simp_all add: row_base_examples raise_trace_examples)
  have m: "mem ?s' BufY 12 = 7"
    "(mem ?s' BufX 12 - mem ?s' BufMean 1) * mem ?s' BufRstd 1 * mem ?s' BufW 4 + mem ?s' BufB 4 = - 27"
    by (simp_all add: mem_init_state)
  have t: "trace ?s' = [Load BufX 8, Load BufX 9, Load BufX 10, Load BufX 11, Load BufX 12,
                    Load BufX 8, Load BufX 9, Load BufX 10, Load BufX 11]"
    by simp
  show ?thesis by (rule exI [of _ ?s']) (intro conjI r t m)
qed

section \<open>The stored mean\<close>

text \<open>
  Claim C3, evaluated on the code for row 1 with stride 8, \<^verbatim>\<open>N = 5\<close>, \<^verbatim>\<open>BLOCK_SIZE = 4\<close> and
  the row \<open>[1, 2, 3, 4, 5]\<close>, in exact arithmetic. The mean pass and line 32 compute 3,
  the arithmetic mean of the row, but the kernel raises \<^verbatim>\<open>TypeError\<close> on line 38, before
  the store of line 43: \<^verbatim>\<open>Mean[1]\<close> holds 7 as before.
\<close>

theorem mean_not_stored_at_N5:
  "\<exists>s'. layer_norm_fwd_fused real_prims 1 (BufX, 0) (BufY, 0) (BufW, 0) (BufB, 0) 8
          (BufMean, 0) (BufRstd, 0) 5 (1 / 100000) 4
          (init_state 7 [0, 0, 0, 0, 0, 0, 0, 0, 1, 2, 3, 4, 5] [1, 1, 1, 1, 1] [0, 0, 0, 0, 0]) =
            Inl (TypeError, s') \<and>
        tl_sum real_prims (fst (mean_loop (BufX, 8) 5 4 (range_py 0 5 4) (tl_zeros 4)
          (init_state 7 [0, 0, 0, 0, 0, 0, 0, 0, 1, 2, 3, 4, 5] [1, 1, 1, 1, 1] [0, 0, 0, 0, 0]))) /
          to_float real_prims 5 = 3 \<and>
        (\<Sum>j<5. mem s' BufX (8 + int j)) / 5 = 3 \<and>
        mem s' BufMean 1 = 7"
proof -
  let ?s = "init_state 7 [0, 0, 0, 0, 0, 0, 0, 0, 1, 2, 3, 4, 5] [1, 1, 1, 1, 1] [0, 0, 0, 0, 0] :: real state"
  let ?s' = "?s\<lparr>trace := [Load BufX 8, Load BufX 9, Load BufX 10, Load BufX 11, Load BufX 12,
                    Load BufX 8, Load BufX 9, Load BufX 10, Load BufX 11]\<rparr>"
  have "(1::nat) \<le> 5" by simp
  then have r: "layer_norm_fwd_fused real_prims 1 (BufX, 0) (BufY, 0) (BufW, 0) (BufB, 0) 8
          (BufMean, 0) (BufRstd, 0) 5 (1 / 100000) 4 ?s = Inl (TypeError, ?s')"
    by (intro kernel_raises_at [OF is_pow2_examples(2) int32_examples(3) int32_examples(4)]) (simp_all add: row_base_examples raise_trace_examples)
  have "(0::nat) < 4" by simp
  then have "mean_of (mem ?s) real_prims (BufX, 8) 5 4 = 3"
    by (simp add: mean_of_real lessThan_examples deref_def col_ptr_def mem_init_state)
  then have 1: "tl_sum real_prims (fst (mean_loop (BufX, 8) 5 4 (range_py 0 5 4) (tl_zeros 4) ?s)) /
          to_float real_prims 5 = 3"
    by (simp only: mean_pass_computes [OF is_pow2_examples(2) int32_examples(3) int32_examples(4)])
  have 2: "(\<Sum>j<5. mem ?s' BufX (8 + int j)) / 5 = 3" "mem ?s' BufMean 1 = 7"
    by (simp_all add: lessThan_examples mem_init_state)
  show ?thesis by (rule exI [of _ ?s']) (intro conjI r 1 2)
qed

section \<open>The stored reciprocal standard deviation\<close>

text \<open>
  Claim C4, evaluated on the code for \<^verbatim>\<open>N = 5\<close>, \<^verbatim>\<open>BLOCK_SIZE = 4\<close>, the row
  \<open>[1, 2, 3, 4, 5]\<close> and \<^verbatim>\<open>eps = 1e-5\<close>, in exact arithmetic. The population variance of the
  row is 2. The kernel raises \<^verbatim>\<open>TypeError\<close> on line 38, before lines 40, 41 and 44: no
  variance is computed, the trace holds no store, and \<^verbatim>\<open>Rstd[0]\<close> holds 0 as before, not
  \<open>1 / sqrt (2 + eps)\<close>.
\<close>

theorem rstd_not_stored_at_N5:
  "\<exists>s'. layer_norm_fwd_fused real_prims 0 (BufX, 0) (BufY, 0) (BufW, 0) (BufB, 0) 5
          (BufMean, 0) (BufRstd, 0) 5 (1 / 100000) 4
          (init_state 0 [1, 2, 3, 4, 5] [1, 1, 1, 1, 1] [0, 0, 0, 0, 0]) = Inl (TypeError, s') \<and>
        (\<forall>q. stored q \<notin> set (trace s')) \<and>
        (\<Sum>j<5. (mem s' BufX (int j) - 3) * (mem s' BufX (int j) - 3)) / 5 = 2 \<and>
        mem s' BufRstd 0 = 0 \<and>
        mem s' BufRstd 0 \<noteq> 1 / sqrt (2 + 1 / 100000)"
proof -
  let ?s = "init_state 0 [1, 2, 3, 4, 5] [1, 1, 1, 1, 1] [0, 0, 0, 0, 0] :: real state"
  let ?s' = "?s\<lparr>trace := [Load BufX 0, Load BufX 1, Load BufX 2, Load BufX 3, Load BufX 4,
                        Load BufX 0, Load BufX 1, Load BufX 2, Load BufX 3]\<rparr>"
  have "(1::nat) \<le> 5" by simp
  then have r: "layer_norm_fwd_fused real_prims 0 (BufX, 0) (BufY, 0) (BufW, 0) (BufB, 0) 5
          (BufMean, 0) (BufRstd, 0) 5 (1 / 100000) 4 ?s = Inl (TypeError, ?s')"
    by (intro kernel_raises_at [OF is_pow2_examples(2) int32_examples(3) int32_examples(4)]) (simp_all add: row_base_examples raise_trace_examples)
  have 1: "\<forall>q. stored q \<notin> set (trace ?s')"
  proof
    fix q :: ptr
    show "stored q \<notin> set (trace ?s')" by (cases q) simp
  qed
  have 2: "(\<Sum>j<5. (mem ?s' BufX (int j) - 3) * (mem ?s' BufX (int j) - 3)) / 5 = 2"
    "mem ?s' BufRstd 0 = 0" "mem ?s' BufRstd 0 \<noteq> 1 / sqrt (2 + 1 / 100000)"
    by (simp_all add: lessThan_examples mem_init_state)
  show ?thesis by (rule exI [of _ ?s']) (intro conjI r 1 2)
qed

section \<open>The scenario with four columns and a block of four\<close>

text \<open>
  Claim C5, evaluated on the code for \<^verbatim>\<open>N = 4\<close>, \<^verbatim>\<open>BLOCK_SIZE = 4\<close>, the row
  \<open>[1, 2, 3, 4]\<close>, weights 1, biases 0 and \<^verbatim>\<open>eps = 1e-5\<close>, in a memory whose outputs hold
  \<open>-1\<close>. The kernel loads the row twice and raises \<^verbatim>\<open>TypeError\<close> on line 38:
  \<^verbatim>\<open>Mean[0]\<close>, \<^verbatim>\<open>Rstd[0]\<close> and the four cells of \<^verbatim>\<open>Y\<close> hold \<open>-1\<close> as before.
\<close>

theorem scenario_N4_block4_raises:
  "\<exists>s'. layer_norm_fwd_fused real_prims 0 (BufX, 0) (BufY, 0) (BufW, 0) (BufB, 0) 4
          (BufMean, 0) (BufRstd, 0) 4 (1 / 100000) 4
          (init_state (- 1) [1, 2, 3, 4] [1, 1, 1, 1] [0, 0, 0, 0]) = Inl (TypeError, s') \<and>
        trace s' = [Load BufX 0, Load BufX 1, Load BufX 2, Load BufX 3,
                    Load BufX 0, Load BufX 1, Load BufX 2, Load BufX 3] \<and>
        mem s' BufMean 0 = - 1 \<and> mem s' BufRstd 0 = - 1 \<and>
        mem s' BufY 0 = - 1 \<and> mem s' BufY 1 = - 1 \<and> mem s' BufY 2 = - 1 \<and> mem s' BufY 3 = - 1"
proof -
  let ?s = "init_state (- 1) [1, 2, 3, 4] [1, 1, 1, 1] [0, 0, 0, 0] :: real state"
  let ?s' = "?s\<lparr>trace := [Load BufX 0, Load BufX 1, Load BufX 2, Load BufX 3,
                    Load BufX 0, Load BufX 1, Load BufX 2, Load BufX 3]\<rparr>"
  have "(1::nat) \<le> 4" by simp
  then have r: "layer_norm_fwd_fused real_prims 0 (BufX, 0) (BufY, 0) (BufW, 0) (BufB, 0) 4
          (BufMean, 0) (BufRstd, 0) 4 (1 / 100000) 4 ?s = Inl (TypeError, ?s')"
    by (intro kernel_raises_at [OF is_pow2_examples(2) int32_examples(3) int32_examples(3)]) (simp_all add: row_base_examples raise_trace_examples)
  have m: "trace ?s' = [Load BufX 0, Load BufX 1, Load BufX 2, Load BufX 3,
                    Load BufX 0, Load BufX 1, Load BufX 2, Load BufX 3]"
    "mem ?s' BufMean 0 = - 1" "mem ?s' BufRstd 0 = - 1"
    "mem ?s' BufY 0 = - 1" "mem ?s' BufY 1 = - 1" "mem ?s' BufY 2 = - 1" "mem ?s' BufY 3 = - 1"
    by (simp_all add: mem_init_state)
  show ?thesis by (rule exI [of _ ?s']) (intro conjI r m)
qed

section \<open>The order of the stores and the stored statistics\<close>

text \<open>
  Claim C7, evaluated on the code for \<^verbatim>\<open>N = 3\<close>, \<^verbatim>\<open>BLOCK_SIZE = 2\<close> and the row
  \<open>[1, 1, 1]\<close>, in a memory whose outputs hold \<open>-1\<close>. The run makes five loads and raises
  \<^verbatim>\<open>TypeError\<close> on line 38: there is no store at all, so no store into \<^verbatim>\<open>Y\<close> comes before
  the statistics, and \<^verbatim>\<open>Mean[0]\<close> and \<^verbatim>\<open>Rstd[0]\<close> hold \<open>-1\<close> as before, where the mean of
  the row is 1.
\<close>

theorem nothing_stored_at_N3_block2:
  "\<exists>s'. layer_norm_fwd_fused real_prims 0 (BufX, 0) (BufY, 0) (BufW, 0) (BufB, 0) 3
          (BufMean, 0) (BufRstd, 0) 3 (1 / 100000) 2
          (init_state (- 1) [1, 1, 1] [1, 1, 1] [0, 0, 0]) = Inl (TypeError, s') \<and>
        trace s' = [Load BufX 0, Load BufX 1, Load BufX 2, Load BufX 0, Load BufX 1] \<and>
        (\<Sum>j<3. mem s' BufX (int j)) / 3 = 1 \<and>
        mem s' BufMean 0 = - 1 \<and> mem s' BufRstd 0 = - 1"
proof -
  let ?s = "init_state (- 1) [1, 1, 1] [1, 1, 1] [0, 0, 0] :: real state"
  let ?s' = "?s\<lparr>trace := [Load BufX 0, Load BufX 1, Load BufX 2, Load BufX 0, Load BufX 1]\<rparr>"
  have "(1::nat) \<le> 3" by simp
  then have r: "layer_norm_fwd_fused real_prims 0 (BufX, 0) (BufY, 0) (BufW, 0) (BufB, 0) 3
          (BufMean, 0) (BufRstd, 0) 3 (1 / 100000) 2 ?s = Inl (TypeError, ?s')"
    by (intro kernel_raises_at [OF is_pow2_examples(1) int32_examples(1) int32_examples(2)]) (simp_all add: row_base_examples raise_trace_examples)
  have m: "trace ?s' = [Load BufX 0, Load BufX 1, Load BufX 2, Load BufX 0, Load BufX 1]"
    "(\<Sum>j<3. mem ?s' BufX (int j)) / 3 = 1" "mem ?s' BufMean 0 = - 1" "mem ?s' BufRstd 0 = - 1"
    by (simp_all add: lessThan_examples mem_init_state)
  show ?thesis by (rule exI [of _ ?s']) (intro conjI r m)
qed

section \<open>The outputs as a function of the inputs\<close>

text \<open>
  Claim C9, evaluated on the code for \<^verbatim>\<open>N = 3\<close>, \<^verbatim>\<open>BLOCK_SIZE = 2\<close>, stride 4 and two
  memories with the same \<^verbatim>\<open>X\<close>, \<^verbatim>\<open>W\<close> and \<^verbatim>\<open>B\<close>, whose other cells hold 7 in the one and 9
  in the other. Both runs make the same five loads and raise the same \<^verbatim>\<open>TypeError\<close> on
  line 38; neither stores anything, so \<^verbatim>\<open>Mean[0]\<close>, \<^verbatim>\<open>Rstd[0]\<close> and \<^verbatim>\<open>Y[0, 0]\<close> are 7
  after the one run and 9 after the other: what the output buffers hold after a run is
  what they held before it, not a function of the inputs.
\<close>

theorem old_outputs_survive_at_N3_block2:
  "\<exists>s' t'.
     layer_norm_fwd_fused real_prims 0 (BufX, 0) (BufY, 0) (BufW, 0) (BufB, 0) 4
        (BufMean, 0) (BufRstd, 0) 3 (1 / 100000) 2 (init_state 7 [1, 2, 4, 50] [2, 2, 2] [1, 1, 1]) =
          Inl (TypeError, s') \<and>
     layer_norm_fwd_fused real_prims 0 (BufX, 0) (BufY, 0) (BufW, 0) (BufB, 0) 4
        (BufMean, 0) (BufRstd, 0) 3 (1 / 100000) 2 (init_state 9 [1, 2, 4, 50] [2, 2, 2] [1, 1, 1]) =
          Inl (TypeError, t') \<and>
     map (mem s' BufX) [0, 1, 2] = map (mem t' BufX) [0, 1, 2] \<and>
     map (mem s' BufW) [0, 1, 2] = map (mem t' BufW) [0, 1, 2] \<and>
     map (mem s' BufB) [0, 1, 2] = map (mem t' BufB) [0, 1, 2] \<and>
     trace s' = trace t' \<and>
     mem s' BufMean 0 = 7 \<and> mem t' BufMean 0 = 9 \<and>
     mem s' BufRstd 0 = 7 \<and> mem t' BufRstd 0 = 9 \<and>
     mem s' BufY 0 = 7 \<and> mem t' BufY 0 = 9"
proof -
  let ?s = "init_state 7 [1, 2, 4, 50] [2, 2, 2] [1, 1, 1] :: real state"
  let ?t = "init_state 9 [1, 2, 4, 50] [2, 2, 2] [1, 1, 1] :: real state"
  let ?tr = "[Load BufX 0, Load BufX 1, Load BufX 2, Load BufX 0, Load BufX 1]"
  have h: "(1::nat) \<le> 3" by simp
  from h have rs: "layer_norm_fwd_fused real_prims 0 (BufX, 0) (BufY, 0) (BufW, 0) (BufB, 0) 4
          (BufMean, 0) (BufRstd, 0) 3 (1 / 100000) 2 ?s = Inl (TypeError, ?s\<lparr>trace := ?tr\<rparr>)"
    by (intro kernel_raises_at [OF is_pow2_examples(1) int32_examples(1) int32_examples(2)]) (simp_all add: row_base_examples raise_trace_examples)
  from h have rt: "layer_norm_fwd_fused real_prims 0 (BufX, 0) (BufY, 0) (BufW, 0) (BufB, 0) 4
          (BufMean, 0) (BufRstd, 0) 3 (1 / 100000) 2 ?t = Inl (TypeError, ?t\<lparr>trace := ?tr\<rparr>)"
    by (intro kernel_raises_at [OF is_pow2_examples(1) int32_examples(1) int32_examples(2)]) (simp_all add: row_base_examples raise_trace_examples)
  have m: "map (mem (?s\<lparr>trace := ?tr\<rparr>) BufX) [0, 1, 2] = map (mem (?t\<lparr>trace := ?tr\<rparr>) BufX) [0, 1, 2]"
    "map (mem (?s\<lparr>trace := ?tr\<rparr>) BufW) [0, 1, 2] = map (mem (?t\<lparr>trace := ?tr\<rparr>) BufW) [0, 1, 2]"
    "map (mem (?s\<lparr>trace := ?tr\<rparr>) BufB) [0, 1, 2] = map (mem (?t\<lparr>trace := ?tr\<rparr>) BufB) [0, 1, 2]"
    "trace (?s\<lparr>trace := ?tr\<rparr>) = trace (?t\<lparr>trace := ?tr\<rparr>)"
    "mem (?s\<lparr>trace := ?tr\<rparr>) BufMean 0 = 7" "mem (?t\<lparr>trace := ?tr\<rparr>) BufMean 0 = 9"
    "mem (?s\<lparr>trace := ?tr\<rparr>) BufRstd 0 = 7" "mem (?t\<lparr>trace := ?tr\<rparr>) BufRstd 0 = 9"
    "mem (?s\<lparr>trace := ?tr\<rparr>) BufY 0 = 7" "mem (?t\<lparr>trace := ?tr\<rparr>) BufY 0 = 9"
    by (simp_all add: mem_init_state)
  show ?thesis
    by (rule exI [of _ "?s\<lparr>trace := ?tr\<rparr>"], rule exI [of _ "?t\<lparr>trace := ?tr\<rparr>"])
       (intro conjI rs rt m)
qed

end
